theory Spec2Isabelle
  imports Main
begin

section \<open>The entry points of the Medzy backend\<close>

text \<open>
  The repository has three entry points. \<^verbatim>\<open>src/server.js\<close> holds two texts of the
  long-running server one after the other: the first (lines 1 to 168) is called
  \<open>v1\<close> below, the second (lines 168 to 341) \<open>v2\<close>. \<^verbatim>\<open>src/api/index.js\<close> is the
  minimal serverless entry point, called \<open>api\<close>.

  Everything the entry points import from elsewhere (the \<^verbatim>\<open>cors\<close> package, the body
  parsers of Express, the nineteen route modules, \<^verbatim>\<open>path.extname\<close>) is a parameter
  of the model. What Express itself does with the registered layers (matching,
  error state, the final handler) is written out in \<open>run\<close>.
\<close>

subsection \<open>JavaScript values\<close>

type_synonym json_object = "(string \<times> string) list"

record js_error =
  err_message :: string
  err_code :: "string option"

text \<open>\<^verbatim>\<open>process.env\<close> (a variable is a string or undefined) and \<^verbatim>\<open>process.platform\<close>.\<close>

record node_process =
  NODE_ENV :: "string option"
  VERCEL :: "string option"
  VERCEL_ENV :: "string option"
  PORT_var :: "string option"
  platform :: string

text \<open>Truthiness of a string or undefined: only undefined and the empty string are falsy.\<close>

definition truthy :: "string option \<Rightarrow> bool" where
  "truthy v = (case v of None \<Rightarrow> False | Some s \<Rightarrow> s \<noteq> [])"

text \<open>\<^verbatim>\<open>v || d\<close> with a string default.\<close>

definition or_default :: "string option \<Rightarrow> string \<Rightarrow> string" where
  "or_default v d = (case v of None \<Rightarrow> d | Some s \<Rightarrow> (if s = [] then d else s))"

text \<open>\<^verbatim>\<open>const PORT = process.env.PORT || 5000\<close>, as it prints in a template literal.\<close>

definition PORT :: "node_process \<Rightarrow> string" where
  "PORT p = or_default (PORT_var p) ''5000''"

text \<open>\<^verbatim>\<open>const isVercel = process.env.VERCEL || process.env.VERCEL_ENV\<close> (v2 only).\<close>

definition isVercel :: "node_process \<Rightarrow> bool" where
  "isVercel p = (truthy (VERCEL p) \<or> truthy (VERCEL_ENV p))"

subsection \<open>Requests, responses and the Express layer stack\<close>

text \<open>
  \<open>req_path\<close> is \<^verbatim>\<open>req.path\<close>, the path of the URL without the query string.
  \<open>req_time\<close> is what \<^verbatim>\<open>new Date().toISOString()\<close> returns while the request is handled.
\<close>

record request =
  req_method :: string
  req_path :: string
  req_headers :: "(string \<times> string) list"
  req_body :: string
  req_time :: string

datatype payload = Json_body json_object | Raw_body string

record response =
  res_status :: nat
  res_body :: payload

text \<open>What a middleware or handler does: call \<^verbatim>\<open>next()\<close>, call \<^verbatim>\<open>next(err)\<close> or throw, or respond.\<close>

datatype outcome = Next | Throw js_error | Respond response

datatype layer =
    Use "request \<Rightarrow> outcome"
  | Mount string "request \<Rightarrow> outcome"
  | Get string "request \<Rightarrow> outcome"
  | Use_error "js_error \<Rightarrow> request \<Rightarrow> outcome"

text \<open>
  When no layer responds, Express hands the request to its final handler: its own
  not-found page, or its own error page when an error is pending.
\<close>

datatype result = Responded response | Default_not_found | Default_error js_error

text \<open>Express matches paths case-insensitively and lets one trailing slash pass.\<close>

definition lower_char :: "char \<Rightarrow> char" where
  "lower_char c = (let n = (of_char c :: nat) in if 65 \<le> n \<and> n \<le> 90 then char_of (n + 32) else c)"

definition lower :: "string \<Rightarrow> string" where
  "lower s = map lower_char s"

definition starts_with :: "string \<Rightarrow> string \<Rightarrow> bool" where
  "starts_with s pre = (take (length pre) s = pre)"

text \<open>\<^verbatim>\<open>app.use(prefix, router)\<close>: the prefix, then the end of the path or a slash.\<close>

definition mount_match :: "string \<Rightarrow> string \<Rightarrow> bool" where
  "mount_match pre path =
     (starts_with (lower path) (lower pre) \<and>
      (case drop (length pre) path of [] \<Rightarrow> True | c # _ \<Rightarrow> c = CHR ''/''))"

text \<open>Inside a mounted router the path is the rest after the prefix, \<^verbatim>\<open>/\<close> when empty.\<close>

definition strip_mount :: "string \<Rightarrow> string \<Rightarrow> string" where
  "strip_mount pre path = (case drop (length pre) path of [] \<Rightarrow> ''/'' | c # cs \<Rightarrow> c # cs)"

text \<open>\<^verbatim>\<open>app.get(route, handler)\<close>: the whole path, with or without a trailing slash.\<close>

definition route_match :: "string \<Rightarrow> string \<Rightarrow> bool" where
  "route_match route path =
     (let base = (if route \<noteq> [] \<and> last route = CHR ''/'' then butlast route else route)
      in lower path = lower base \<or> lower path = lower base @ ''/'')"

text \<open>A GET route also answers HEAD when no HEAD route is declared (none is, anywhere).\<close>

definition get_handles :: "string \<Rightarrow> bool" where
  "get_handles m = (m = ''GET'' \<or> m = ''HEAD'')"

fun run :: "layer list \<Rightarrow> request \<Rightarrow> js_error option \<Rightarrow> result" where
  "run [] req None = Default_not_found"
| "run [] req (Some e) = Default_error e"
| "run (Use h # ls) req None =
     (case h req of
        Next \<Rightarrow> run ls req None
      | Throw e \<Rightarrow> run ls req (Some e)
      | Respond r \<Rightarrow> Responded r)"
| "run (Mount pre h # ls) req None =
     (if mount_match pre (req_path req)
      then (case h (req\<lparr>req_path := strip_mount pre (req_path req)\<rparr>) of
              Next \<Rightarrow> run ls req None
            | Throw e \<Rightarrow> run ls req (Some e)
            | Respond r \<Rightarrow> Responded r)
      else run ls req None)"
| "run (Get route h # ls) req None =
     (if get_handles (req_method req) \<and> route_match route (req_path req)
      then (case h req of
              Next \<Rightarrow> run ls req None
            | Throw e \<Rightarrow> run ls req (Some e)
            | Respond r \<Rightarrow> Responded r)
      else run ls req None)"
| "run (Use_error h # ls) req None = run ls req None"
| "run (Use_error h # ls) req (Some e) =
     (case h e req of
        Next \<Rightarrow> run ls req None
      | Throw e' \<Rightarrow> run ls req (Some e')
      | Respond r \<Rightarrow> Responded r)"
| "run (Use h # ls) req (Some e) = run ls req (Some e)"
| "run (Mount pre h # ls) req (Some e) = run ls req (Some e)"
| "run (Get route h # ls) req (Some e) = run ls req (Some e)"

text \<open>\<^verbatim>\<open>res.json(obj)\<close> answers 200 unless \<^verbatim>\<open>res.status\<close> was called first.\<close>

definition json_response :: "nat \<Rightarrow> json_object \<Rightarrow> outcome" where
  "json_response code obj = Respond \<lparr>res_status = code, res_body = Json_body obj\<rparr>"

subsection \<open>What the entry points import\<close>

text \<open>The options object passed to \<^verbatim>\<open>cors(...)\<close>; \<open>None\<close> is the call with no argument.\<close>

record cors_options =
  origin :: "string list"
  credentials :: bool

text \<open>
  The imported middleware factories and route modules. \<open>cors\<close> takes its options,
  \<open>express_json\<close> its \<^verbatim>\<open>limit\<close> option, \<open>express_urlencoded\<close> its \<^verbatim>\<open>extended\<close> and
  \<^verbatim>\<open>limit\<close> options, and \<open>route_module\<close> the path the router is imported from.
\<close>

record imported =
  cors :: "cors_options option \<Rightarrow> request \<Rightarrow> outcome"
  express_json :: "string option \<Rightarrow> request \<Rightarrow> outcome"
  express_urlencoded :: "bool \<Rightarrow> string option \<Rightarrow> request \<Rightarrow> outcome"
  route_module :: "string \<Rightarrow> request \<Rightarrow> outcome"

text \<open>The nineteen \<^verbatim>\<open>app.use(prefix, router)\<close> lines, the same in v1 and v2.\<close>

definition business_routes :: "imported \<Rightarrow> layer list" where
  "business_routes d =
    [Mount ''/api/auth'' (route_module d ''./routes/auth.js''),
     Mount ''/api/users'' (route_module d ''./routes/users.js''),
     Mount ''/api/profile'' (route_module d ''./routes/profile.js''),
     Mount ''/api/support'' (route_module d ''./routes/support.js''),
     Mount ''/api/medicines'' (route_module d ''./routes/medicines.js''),
     Mount ''/api/cart'' (route_module d ''./routes/cart.js''),
     Mount ''/api/medicine-requests'' (route_module d ''./routes/medicineRequests.js''),
     Mount ''/api/orders'' (route_module d ''./routes/orders.js''),
     Mount ''/api/donations'' (route_module d ''./routes/donations.js''),
     Mount ''/api/daily-updates'' (route_module d ''./routes/dailyUpdates.js''),
     Mount ''/api/reviews'' (route_module d ''./routes/reviews.js''),
     Mount ''/api/service-reviews'' (route_module d ''./routes/serviceReviews.js''),
     Mount ''/api/payments'' (route_module d ''./routes/payments.js''),
     Mount ''/api/disputes'' (route_module d ''./routes/disputes.js''),
     Mount ''/api/smart-doctor'' (route_module d ''./routes/smartDoctor.js''),
     Mount ''/api/medicine-reminders'' (route_module d ''./routes/medicineReminders.js''),
     Mount ''/api/medical-profile'' (route_module d ''./routes/medicalProfile.js''),
     Mount ''/api/customer-points'' (route_module d ''./routes/customerPoints.js''),
     Mount ''/api/revenue-adjustments'' (route_module d ''./routes/revenueAdjustments.js'')]"

text \<open>The prefixes under which a route module is mounted.\<close>

definition mount_prefixes :: "string list" where
  "mount_prefixes =
    [''/api/auth'', ''/api/users'', ''/api/profile'', ''/api/support'', ''/api/medicines'',
     ''/api/cart'', ''/api/medicine-requests'', ''/api/orders'', ''/api/donations'',
     ''/api/daily-updates'', ''/api/reviews'', ''/api/service-reviews'', ''/api/payments'',
     ''/api/disputes'', ''/api/smart-doctor'', ''/api/medicine-reminders'',
     ''/api/medical-profile'', ''/api/customer-points'', ''/api/revenue-adjustments'']"

subsection \<open>v1: the first text of server.js\<close>

text \<open>
  \<^verbatim>\<open>res.json({ message: 'Medsy Backend Server is running!', timestamp: new Date() })\<close>;
  the Date is written to JSON as its ISO string.
\<close>

definition health_v1 :: "request \<Rightarrow> outcome" where
  "health_v1 req =
     json_response 200
       [(''message'', ''Medsy Backend Server is running!''),
        (''timestamp'', req_time req)]"

definition app_v1 :: "imported \<Rightarrow> layer list" where
  "app_v1 d =
     [Use (cors d None),
      Use (express_json d None),
      Use (express_urlencoded d True None)]
     @ business_routes d
     @ [Get ''/api/health'' health_v1]"

subsection \<open>v2: the second text of server.js\<close>

definition cors_options_v2 :: "node_process \<Rightarrow> cors_options" where
  "cors_options_v2 p =
     \<lparr>origin = (if NODE_ENV p = Some ''production''
                 then [''https://medzy-app-frontend.vercel.app'']
                 else [''http://localhost:5173'', ''http://localhost:3000'']),
      credentials = True\<rparr>"

definition root_v2 :: "node_process \<Rightarrow> request \<Rightarrow> outcome" where
  "root_v2 p req =
     json_response 200
       [(''message'', ''Medzy Healthcare & Medicine Tracker API''),
        (''status'', ''running''),
        (''timestamp'', req_time req),
        (''environment'', or_default (NODE_ENV p) ''development'')]"

definition health_v2 :: "node_process \<Rightarrow> request \<Rightarrow> outcome" where
  "health_v2 p req =
     json_response 200
       [(''message'', ''Medzy Backend Server is running!''),
        (''status'', ''healthy''),
        (''timestamp'', req_time req),
        (''environment'', or_default (NODE_ENV p) ''development'')]"

text \<open>The error middleware; it also writes \<^verbatim>\<open>err.stack\<close> to the console.\<close>

definition error_handler_v2 :: "node_process \<Rightarrow> js_error \<Rightarrow> request \<Rightarrow> outcome" where
  "error_handler_v2 p err req =
     json_response 500
       [(''message'', ''Something went wrong!''),
        (''error'', (if NODE_ENV p = Some ''development''
                     then err_message err else ''Internal server error''))]"

definition not_found_v2 :: "request \<Rightarrow> outcome" where
  "not_found_v2 req =
     json_response 404
       [(''message'', ''Route not found''),
        (''path'', req_path req)]"

definition app_v2 :: "node_process \<Rightarrow> imported \<Rightarrow> layer list" where
  "app_v2 p d =
     [Use (cors d (Some (cors_options_v2 p))),
      Use (express_json d (Some ''10mb'')),
      Use (express_urlencoded d True (Some ''10mb''))]
     @ business_routes d
     @ [Get ''/'' (root_v2 p),
        Get ''/api/health'' (health_v2 p),
        Use_error (error_handler_v2 p),
        Use not_found_v2]"

subsection \<open>api: the minimal serverless entry point\<close>

definition cors_options_api :: cors_options where
  "cors_options_api =
     \<lparr>origin = [''https://medzy-app-frontend.vercel.app'', ''http://localhost:5173''],
      credentials = True\<rparr>"

definition root_api :: "request \<Rightarrow> outcome" where
  "root_api req =
     json_response 200
       [(''message'', ''Medzy Healthcare API''),
        (''status'', ''running''),
        (''timestamp'', req_time req)]"

definition health_api :: "request \<Rightarrow> outcome" where
  "health_api req =
     json_response 200
       [(''message'', ''Medzy Backend Server is running!''),
        (''status'', ''healthy''),
        (''timestamp'', req_time req)]"

definition error_handler_api :: "js_error \<Rightarrow> request \<Rightarrow> outcome" where
  "error_handler_api err req =
     json_response 500 [(''message'', ''Internal server error'')]"

definition app_api :: "imported \<Rightarrow> layer list" where
  "app_api d =
     [Use (cors d (Some cors_options_api)),
      Use (express_json d None),
      Get ''/'' root_api,
      Get ''/api/health'' health_api,
      Use_error error_handler_api]"

text \<open>The three applications answering a request that arrives with no error pending.\<close>

definition serve_v1 :: "imported \<Rightarrow> request \<Rightarrow> result" where
  "serve_v1 d req = run (app_v1 d) req None"

definition serve_v2 :: "node_process \<Rightarrow> imported \<Rightarrow> request \<Rightarrow> result" where
  "serve_v2 p d req = run (app_v2 p d) req None"

definition serve_api :: "imported \<Rightarrow> request \<Rightarrow> result" where
  "serve_api d req = run (app_api d) req None"

text \<open>Reading a field of the JSON body of a response.\<close>

definition field_of :: "result \<Rightarrow> string \<Rightarrow> string option" where
  "field_of r k =
     (case r of
        Responded x \<Rightarrow> (case res_body x of Json_body obj \<Rightarrow> map_of obj k | Raw_body _ \<Rightarrow> None)
      | _ \<Rightarrow> None)"

text \<open>The imported middleware lets the request through (calls \<^verbatim>\<open>next()\<close>).\<close>

definition passes :: "(request \<Rightarrow> outcome) \<Rightarrow> request \<Rightarrow> bool" where
  "passes mw req = (mw req = Next)"

subsection \<open>The upload configuration (v1)\<close>

text \<open>The fields of a multer file that the configuration reads, and the size of the file.\<close>

record upload_file =
  fieldname :: string
  originalname :: string
  mimetype :: string
  file_size :: nat

text \<open>The \<^verbatim>\<open>fileFilter\<close> callback: \<open>Inl\<close> is \<^verbatim>\<open>cb(err, false)\<close>, \<open>Inr b\<close> is \<^verbatim>\<open>cb(null, b)\<close>.\<close>

definition fileFilter :: "upload_file \<Rightarrow> js_error + bool" where
  "fileFilter f =
     (if starts_with (mimetype f) ''image/'' then Inr True
      else Inl \<lparr>err_message = ''Only image files are allowed!'', err_code = None\<rparr>)"

definition digit_char :: "nat \<Rightarrow> char" where
  "digit_char n = ''0123456789'' ! n"

text \<open>A non-negative integer written in decimal, as string concatenation prints it.\<close>

fun digits :: "nat \<Rightarrow> string" where
  "digits n = (if n < 10 then [digit_char n] else digits (n div 10) @ [digit_char (n mod 10)])"

declare digits.simps [simp del]

text \<open>
  \<^verbatim>\<open>Date.now() + '-' + Math.round(Math.random() * 1E9)\<close>: \<open>now\<close> is the clock in
  milliseconds and \<open>rnd\<close> the rounded random number.
\<close>

definition uniqueSuffix :: "nat \<Rightarrow> nat \<Rightarrow> string" where
  "uniqueSuffix now rnd = digits now @ ''-'' @ digits rnd"

text \<open>The \<^verbatim>\<open>filename\<close> callback of the disk storage; \<open>extname\<close> is \<^verbatim>\<open>path.extname\<close>.\<close>

definition filename :: "(string \<Rightarrow> string) \<Rightarrow> nat \<Rightarrow> nat \<Rightarrow> upload_file \<Rightarrow> string" where
  "filename extname now rnd f =
     fieldname f @ ''-'' @ uniqueSuffix now rnd @ extname (originalname f)"

text \<open>The \<^verbatim>\<open>destination\<close> callback answers the uploads directory.\<close>

definition destination :: "string \<Rightarrow> upload_file \<Rightarrow> string" where
  "destination uploadsDir f = uploadsDir"

definition fileSize_limit :: nat where
  "fileSize_limit = 10 * 1024 * 1024"

datatype upload_error = Filter_error js_error | LIMIT_FILE_SIZE

record stored_file =
  stored_dir :: string
  stored_name :: string

text \<open>
  What multer does with one file under this configuration: it asks the filter first;
  an error from the filter goes to the middleware callback; a file the filter declines
  without error is skipped (\<open>Inr None\<close>); an accepted file is written under the
  generated name unless it is larger than the \<^verbatim>\<open>fileSize\<close> limit.
\<close>

definition upload :: "(string \<Rightarrow> string) \<Rightarrow> string \<Rightarrow> nat \<Rightarrow> nat \<Rightarrow> upload_file
    \<Rightarrow> upload_error + stored_file option" where
  "upload extname uploadsDir now rnd f =
     (case fileFilter f of
        Inl e \<Rightarrow> Inl (Filter_error e)
      | Inr False \<Rightarrow> Inr None
      | Inr True \<Rightarrow>
          (if fileSize_limit < file_size f then Inl LIMIT_FILE_SIZE
           else Inr (Some \<lparr>stored_dir = destination uploadsDir f,
                            stored_name = filename extname now rnd f\<rparr>)))"

subsection \<open>The process: start-up, listener and signals\<close>

text \<open>\<^verbatim>\<open>console.log(line)\<close> and \<^verbatim>\<open>console.error(label, error)\<close>.\<close>

datatype console_entry = Log string | Error_log string js_error

text \<open>A process ends by \<^verbatim>\<open>process.exit(code)\<close> or by a signal nobody handles.\<close>

datatype ending = Exited nat | Killed string

text \<open>
  The state of the process as far as the entry points touch it: the console, the end
  of the process, the calls of \<^verbatim>\<open>connectDB()\<close>, the service modules loaded, the ports
  given to \<^verbatim>\<open>app.listen\<close>, whether the listener takes new connections, the connections
  still open, whether a \<^verbatim>\<open>server.close(callback)\<close> waits for them, and the handlers
  registered with \<^verbatim>\<open>server.on('error')\<close> and \<^verbatim>\<open>process.on(signal)\<close>.
\<close>

record proc =
  console :: "console_entry list"
  ended :: "ending option"
  db_connect_calls :: nat
  services :: "string list"
  listen_calls :: "string list"
  accepting :: bool
  open_conns :: nat
  close_pending :: bool
  on_error :: bool
  on_signal :: "string list"

definition fresh :: proc where
  "fresh = \<lparr>console = [], ended = None, db_connect_calls = 0, services = [],
            listen_calls = [], accepting = False, open_conns = 0, close_pending = False,
            on_error = False, on_signal = []\<rparr>"

definition say :: "console_entry list \<Rightarrow> proc \<Rightarrow> proc" where
  "say entries st = st\<lparr>console := console st @ entries\<rparr>"

definition exit_with :: "nat \<Rightarrow> proc \<Rightarrow> proc" where
  "exit_with code st = st\<lparr>ended := Some (Exited code)\<rparr>"

text \<open>The two emoji of the log lines, as their UTF-8 bytes.\<close>

definition cross_mark :: string where
  "cross_mark = [CHR 0xE2, CHR 0x9D, CHR 0x8C]"

definition waving_hand :: string where
  "waving_hand = [CHR 0xF0, CHR 0x9F, CHR 0x91, CHR 0x8B]"

text \<open>The callback of \<^verbatim>\<open>app.listen\<close>, the same in v1 and v2.\<close>

definition listening_callback :: "node_process \<Rightarrow> proc \<Rightarrow> proc" where
  "listening_callback p st = say [Log (''[0] Server running on port '' @ PORT p)] st"

text \<open>The lines printed when the port is taken.\<close>

definition port_in_use_v1 :: "node_process \<Rightarrow> console_entry list" where
  "port_in_use_v1 p =
     [Log (cross_mark @ '' Port '' @ PORT p @ '' is already in use. Please:''),
      Log (''   1. Kill the process using port '' @ PORT p),
      Log ''   2. Or change the PORT in your .env file'',
      Log (''   3. Current processes on port '' @ PORT p @ '':''),
      (if platform p = ''win32''
       then Log (''   Run: netstat -ano | findstr :'' @ PORT p)
       else Log (''   Run: lsof -i :'' @ PORT p))]"

definition port_in_use_v2 :: "node_process \<Rightarrow> console_entry list" where
  "port_in_use_v2 p =
     [Log (cross_mark @ '' Port '' @ PORT p @ '' is already in use. Please:''),
      Log (''1. Stop any other server running on port '' @ PORT p),
      Log ''2. Use a different port by setting PORT environment variable'']"

text \<open>The handlers of the server's \<^verbatim>\<open>error\<close> event.\<close>

definition on_server_error_v1 :: "node_process \<Rightarrow> js_error \<Rightarrow> proc \<Rightarrow> proc" where
  "on_server_error_v1 p err st =
     (if err_code err = Some ''EADDRINUSE''
      then exit_with 1 (say (port_in_use_v1 p) st)
      else exit_with 1 (say [Error_log ''Server error:'' err] st))"

definition on_server_error_v2 :: "node_process \<Rightarrow> js_error \<Rightarrow> proc \<Rightarrow> proc" where
  "on_server_error_v2 p err st =
     (if err_code err = Some ''EADDRINUSE''
      then exit_with 1 (say (port_in_use_v2 p) st)
      else exit_with 1 (say [Error_log ''Server error:'' err] st))"

text \<open>The callback given to \<^verbatim>\<open>server.close\<close>, the same in both handlers and both texts.\<close>

definition close_callback :: "proc \<Rightarrow> proc" where
  "close_callback st = exit_with 0 (say [Log ''Process terminated''] st)"

text \<open>
  \<^verbatim>\<open>server.close(callback)\<close> in Node: the listener stops taking connections at once,
  and the callback runs when the last open connection has ended.
\<close>

definition server_close :: "proc \<Rightarrow> proc" where
  "server_close st =
     (let st' = st\<lparr>accepting := False, close_pending := True\<rparr>
      in if open_conns st' = 0 then close_callback st' else st')"

text \<open>
  The handlers of SIGINT and SIGTERM differ in the name they print only. The line
  starts with a newline in v1 and with a backslash and the letter n in v2.
\<close>

definition on_signal_v1 :: "string \<Rightarrow> proc \<Rightarrow> proc" where
  "on_signal_v1 sig st =
     server_close
       (say [Log ([CHR 0x0A] @ waving_hand @ '' Received '' @ sig
                  @ ''. Shutting down gracefully...'')] st)"

definition on_signal_v2 :: "string \<Rightarrow> proc \<Rightarrow> proc" where
  "on_signal_v2 sig st =
     server_close
       (say [Log ([CHR 0x5C, CHR ''n''] @ waving_hand @ '' Received '' @ sig
                  @ ''. Shutting down gracefully...'')] st)"

text \<open>
  \<^verbatim>\<open>startServer\<close>. \<open>thrown\<close> is the error \<^verbatim>\<open>app.listen\<close> throws at once, if it does;
  the \<^verbatim>\<open>catch\<close> block then reports it and exits with 1.
\<close>

definition listen_and_register :: "node_process \<Rightarrow> js_error option \<Rightarrow> proc \<Rightarrow> proc" where
  "listen_and_register p thrown st =
     (case thrown of
        Some e \<Rightarrow>
          exit_with 1 (say [Error_log ''Failed to start server:'' e]
            (st\<lparr>listen_calls := listen_calls st @ [PORT p]\<rparr>))
      | None \<Rightarrow>
          st\<lparr>listen_calls := listen_calls st @ [PORT p],
             accepting := True,
             on_error := True,
             on_signal := on_signal st @ [''SIGINT'', ''SIGTERM'']\<rparr>)"

definition startServer_v1 :: "node_process \<Rightarrow> js_error option \<Rightarrow> proc \<Rightarrow> proc" where
  "startServer_v1 p thrown st = listen_and_register p thrown st"

definition startServer_v2 :: "node_process \<Rightarrow> js_error option \<Rightarrow> proc \<Rightarrow> proc" where
  "startServer_v2 p thrown st =
     (if \<not> isVercel p then listen_and_register p thrown st else st)"

text \<open>
  Loading the module, top to bottom. In v1 the two service modules are static imports.
  In v2 they are imported inside \<^verbatim>\<open>try\<close>, outside Vercel only; \<open>loads m\<close> tells
  whether importing \<open>m\<close> succeeds.
\<close>

definition main_v1 :: "node_process \<Rightarrow> js_error option \<Rightarrow> proc" where
  "main_v1 p thrown =
     (let st = fresh\<lparr>db_connect_calls := 1,
                      services := [''./services/emailService.js'',
                                   ''./services/notificationService.js'']\<rparr>
      in if NODE_ENV p \<noteq> Some ''production'' then startServer_v1 p thrown st else st)"

definition init_services_v2 :: "(string \<Rightarrow> bool) \<Rightarrow> proc \<Rightarrow> proc" where
  "init_services_v2 loads st =
     (if \<not> loads ''./services/emailService.js''
      then say [Log ''Service initialization skipped in serverless environment''] st
      else if \<not> loads ''./services/notificationService.js''
      then say [Log ''Service initialization skipped in serverless environment'']
             (st\<lparr>services := services st @ [''./services/emailService.js'']\<rparr>)
      else st\<lparr>services := services st @ [''./services/emailService.js'',
                                             ''./services/notificationService.js'']\<rparr>)"

definition main_v2 :: "node_process \<Rightarrow> (string \<Rightarrow> bool) \<Rightarrow> js_error option \<Rightarrow> proc" where
  "main_v2 p loads thrown =
     (let st1 = fresh\<lparr>db_connect_calls := 1\<rparr>;
          st2 = (if \<not> isVercel p then init_services_v2 loads st1 else st1)
      in if \<not> isVercel p then startServer_v2 p thrown st2 else st2)"

definition main_api :: proc where
  "main_api = fresh"

text \<open>A loaded module: the state it leaves the process in, and its default export.\<close>

record loaded =
  process_state :: proc
  default_export :: "layer list"

definition load_v1 :: "node_process \<Rightarrow> imported \<Rightarrow> js_error option \<Rightarrow> loaded" where
  "load_v1 p d thrown = \<lparr>process_state = main_v1 p thrown, default_export = app_v1 d\<rparr>"

definition load_v2 :: "node_process \<Rightarrow> imported \<Rightarrow> (string \<Rightarrow> bool) \<Rightarrow> js_error option \<Rightarrow> loaded" where
  "load_v2 p d loads thrown =
     \<lparr>process_state = main_v2 p loads thrown, default_export = app_v2 p d\<rparr>"

definition load_api :: "imported \<Rightarrow> loaded" where
  "load_api d = \<lparr>process_state = main_api, default_export = app_api d\<rparr>"

text \<open>
  What reaches a process after start-up: the listener is bound, the listener fails,
  a signal arrives, a connection opens, a connection ends. Nothing happens in a process
  that has ended. A signal without a handler kills the process.
\<close>

datatype event = Listening | Server_error js_error | Signal string | Connect | Disconnect

datatype server_text = V1 | V2

definition deliver :: "server_text \<Rightarrow> node_process \<Rightarrow> proc \<Rightarrow> event \<Rightarrow> proc" where
  "deliver v p st ev =
     (if ended st \<noteq> None then st
      else case ev of
        Listening \<Rightarrow> (if listen_calls st \<noteq> [] then listening_callback p st else st)
      | Server_error e \<Rightarrow>
          (if on_error st
           then (case v of V1 \<Rightarrow> on_server_error_v1 p e st | V2 \<Rightarrow> on_server_error_v2 p e st)
           else st)
      | Signal sig \<Rightarrow>
          (if sig \<in> set (on_signal st)
           then (case v of V1 \<Rightarrow> on_signal_v1 sig st | V2 \<Rightarrow> on_signal_v2 sig st)
           else st\<lparr>ended := Some (Killed sig)\<rparr>)
      | Connect \<Rightarrow> (if accepting st then st\<lparr>open_conns := open_conns st + 1\<rparr> else st)
      | Disconnect \<Rightarrow>
          (if open_conns st = 0 then st
           else (let st' = st\<lparr>open_conns := open_conns st - 1\<rparr>
                 in if close_pending st' \<and> open_conns st' = 0 then close_callback st' else st')))"

definition run_events :: "server_text \<Rightarrow> node_process \<Rightarrow> proc \<Rightarrow> event list \<Rightarrow> proc" where
  "run_events v p st evs = foldl (deliver v p) st evs"

subsection \<open>Conditions on a request\<close>

text \<open>The imported middleware registered ahead of the routes lets the request through.\<close>

definition middleware_passes_v1 :: "imported \<Rightarrow> request \<Rightarrow> bool" where
  "middleware_passes_v1 d req =
     (passes (cors d None) req \<and> passes (express_json d None) req
      \<and> passes (express_urlencoded d True None) req)"

definition middleware_passes_v2 :: "node_process \<Rightarrow> imported \<Rightarrow> request \<Rightarrow> bool" where
  "middleware_passes_v2 p d req =
     (passes (cors d (Some (cors_options_v2 p))) req
      \<and> passes (express_json d (Some ''10mb'')) req
      \<and> passes (express_urlencoded d True (Some ''10mb'')) req)"

definition middleware_passes_api :: "imported \<Rightarrow> request \<Rightarrow> bool" where
  "middleware_passes_api d req =
     (passes (cors d (Some cors_options_api)) req \<and> passes (express_json d None) req)"

text \<open>The path lies under one of the nineteen business prefixes.\<close>

definition business_path :: "string \<Rightarrow> bool" where
  "business_path path = list_ex (\<lambda>pre. mount_match pre path) mount_prefixes"

text \<open>The request meets one of the two routes an entry point declares itself.\<close>

definition fixed_route :: "request \<Rightarrow> bool" where
  "fixed_route req =
     (get_handles (req_method req)
      \<and> (route_match ''/'' (req_path req) \<or> route_match ''/api/health'' (req_path req)))"

text \<open>The prefixes mounted and the GET routes declared in a layer stack, in order.\<close>

fun mounted :: "layer list \<Rightarrow> string list" where
  "mounted [] = []"
| "mounted (Mount pre h # ls) = pre # mounted ls"
| "mounted (l # ls) = mounted ls"

fun get_routes :: "layer list \<Rightarrow> string list" where
  "get_routes [] = []"
| "get_routes (Get route h # ls) = route # get_routes ls"
| "get_routes (l # ls) = get_routes ls"

fun is_error_layer :: "layer \<Rightarrow> bool" where
  "is_error_layer (Use_error h) = True"
| "is_error_layer l = False"

text \<open>A process that \<^verbatim>\<open>startServer\<close> has set up and that has not ended.\<close>

definition running :: "proc \<Rightarrow> bool" where
  "running st =
     (ended st = None \<and> on_error st \<and> on_signal st = [''SIGINT'', ''SIGTERM''])"

text \<open>The events of a shutdown: connections open and end, the signals may come again.\<close>

definition drain_event :: "event \<Rightarrow> bool" where
  "drain_event ev =
     (ev = Connect \<or> ev = Disconnect \<or> ev = Signal ''SIGINT'' \<or> ev = Signal ''SIGTERM'')"

definition disconnects :: "event list \<Rightarrow> nat" where
  "disconnects evs = length (filter (\<lambda>ev. ev = Disconnect) evs)"

text \<open>
  A process between the signal and its exit: the close callback waits, the listener
  takes nothing new, and at least one connection is still open.
\<close>

definition draining :: "proc \<Rightarrow> bool" where
  "draining st =
     (ended st = None \<and> close_pending st \<and> \<not> accepting st \<and> 0 < open_conns st
      \<and> on_signal st = [''SIGINT'', ''SIGTERM''])"

subsection \<open>Sample inputs\<close>

definition all_pass :: imported where
  "all_pass =
     \<lparr>cors = (\<lambda>opts req. Next),
      express_json = (\<lambda>limit req. Next),
      express_urlencoded = (\<lambda>extended limit req. Next),
      route_module = (\<lambda>m req. Next)\<rparr>"

definition boom :: js_error where
  "boom = \<lparr>err_message = ''boom'', err_code = None\<rparr>"

text \<open>As \<open>all_pass\<close>, but the router of \<^verbatim>\<open>./routes/auth.js\<close> throws.\<close>

definition auth_throws :: imported where
  "auth_throws =
     all_pass\<lparr>route_module := (\<lambda>m req. if m = ''./routes/auth.js'' then Throw boom else Next)\<rparr>"

definition request_to :: "string \<Rightarrow> string \<Rightarrow> request" where
  "request_to m path =
     \<lparr>req_method = m, req_path = path, req_headers = [], req_body = [],
      req_time = ''2025-01-01T00:00:00.000Z''\<rparr>"

definition local_process :: node_process where
  "local_process =
     \<lparr>NODE_ENV = None, VERCEL = None, VERCEL_ENV = None, PORT_var = None,
      platform = ''linux''\<rparr>"

definition test_process :: node_process where
  "test_process = local_process\<lparr>NODE_ENV := Some ''test''\<rparr>"

definition production_process :: node_process where
  "production_process = local_process\<lparr>NODE_ENV := Some ''production''\<rparr>"

definition vercel_process :: node_process where
  "vercel_process = local_process\<lparr>VERCEL := Some ''1''\<rparr>"


definition png_upload :: upload_file where
  "png_upload =
     \<lparr>fieldname = ''image'', originalname = ''pill.png'', mimetype = ''image/png'',
      file_size = 2048\<rparr>"

definition pdf_upload :: upload_file where
  "pdf_upload =
     \<lparr>fieldname = ''image'', originalname = ''leaflet.pdf'', mimetype = ''application/pdf'',
      file_size = 2048\<rparr>"

definition huge_png_upload :: upload_file where
  "huge_png_upload =
     \<lparr>fieldname = ''image'', originalname = ''scan.png'', mimetype = ''image/png'',
      file_size = 20 * 1024 * 1024\<rparr>"

text \<open>A POST to a business path whose JSON body is cut short.\<close>

definition malformed_login :: request where
  "malformed_login =
     \<lparr>req_method = ''POST'', req_path = ''/api/auth/login'',
      req_headers = [(''content-type'', ''application/json'')], req_body = ''{bad'',
      req_time = ''2025-01-01T00:00:00.000Z''\<rparr>"

definition parse_error :: js_error where
  "parse_error = \<lparr>err_message = ''Unexpected token b in JSON'', err_code = None\<rparr>"

text \<open>As \<open>all_pass\<close>, but the JSON body parser throws on the body that is cut short.\<close>

definition json_rejects :: imported where
  "json_rejects =
     all_pass\<lparr>express_json :=
       (\<lambda>limit req. if req_body req = ''{bad'' then Throw parse_error else Next)\<rparr>"

text \<open>A stand-in for \<^verbatim>\<open>path.extname\<close> on names with one dot: the text from the dot on.\<close>

definition from_dot :: "string \<Rightarrow> string" where
  "from_dot name = dropWhile (\<lambda>c. c \<noteq> CHR ''.'') name"

definition every_service_loads :: "string \<Rightarrow> bool" where
  "every_service_loads m = True"

text \<open>A v2 server outside Vercel that is bound and holds two open connections.\<close>

definition busy_server :: proc where
  "busy_server =
     run_events V2 local_process (main_v2 local_process every_service_loads None)
       [Listening, Connect, Connect]"

section \<open>Properties of the layer stack\<close>

lemmas match_defs =
  mount_match_def starts_with_def lower_def lower_char_def route_match_def get_handles_def

lemmas sample_request_defs =
  request_to_def all_pass_def passes_def middleware_passes_v1_def middleware_passes_v2_def
  middleware_passes_api_def

text \<open>With an error pending, every layer that is not an error middleware is skipped.\<close>

lemma run_skips_on_error:
  "\<forall>l\<in>set pre. \<not> is_error_layer l \<Longrightarrow> run (pre @ ls) req (Some e) = run ls req (Some e)"
proof (induction pre)
  case Nil
  then show ?case by simp
next
  case (Cons l pre)
  then show ?case by (cases l) simp_all
qed

lemma run_drop_on_error:
  assumes "\<forall>l\<in>set pre. \<not> is_error_layer l" and "k \<le> length pre"
  shows "run (drop k (pre @ ls)) req (Some e) = run ls req (Some e)"
proof -
  have "\<forall>l\<in>set (drop k pre). \<not> is_error_layer l"
    using assms(1) by (meson in_set_dropD)
  then have "run (drop k pre @ ls) req (Some e) = run ls req (Some e)"
    by (rule run_skips_on_error)
  with assms(2) show ?thesis by simp
qed

text \<open>Mounted routers whose prefix does not match the path are skipped.\<close>

lemma run_skips_mounts:
  "\<forall>pre\<in>set (mounted ms). \<not> mount_match pre (req_path req) \<Longrightarrow>
   \<forall>l\<in>set ms. \<exists>pre h. l = Mount pre h \<Longrightarrow>
   run (ms @ ls) req None = run ls req None"
proof (induction ms)
  case Nil
  then show ?case by simp
next
  case (Cons l ms)
  then show ?case by (cases l) auto
qed

lemma mounted_business_routes: "mounted (business_routes d) = mount_prefixes"
  by (simp add: business_routes_def mount_prefixes_def)

lemma business_routes_are_mounts: "\<forall>l\<in>set (business_routes d). \<exists>pre h. l = Mount pre h"
  by (simp add: business_routes_def)

lemma business_routes_no_error_layer: "\<forall>l\<in>set (business_routes d). \<not> is_error_layer l"
  by (simp add: business_routes_def)

lemma length_business_routes: "length (business_routes d) = 19"
  by (simp add: business_routes_def)

lemma run_business_routes_unmatched:
  assumes "\<not> business_path (req_path req)"
  shows "run (business_routes d @ ls) req None = run ls req None"
proof -
  from assms have "\<forall>pre\<in>set (mounted (business_routes d)). \<not> mount_match pre (req_path req)"
    by (simp add: business_path_def mounted_business_routes list_ex_iff)
  then show ?thesis
    using business_routes_are_mounts by (rule run_skips_mounts)
qed

lemma health_not_business: "\<not> business_path ''/api/health''"
  by (simp add: business_path_def mount_prefixes_def match_defs)

lemma root_not_business: "\<not> business_path ''/''"
  by (simp add: business_path_def mount_prefixes_def match_defs)

text \<open>A path under a business prefix meets neither \<^verbatim>\<open>/\<close> nor \<^verbatim>\<open>/api/health\<close>.\<close>

lemma business_path_lower:
  assumes "business_path path"
  shows "\<exists>pre\<in>set mount_prefixes. take (length pre) (lower path) = lower pre"
  using assms
  by (auto simp add: business_path_def list_ex_iff mount_match_def starts_with_def lower_def)

lemma fixed_paths_not_mounted:
  assumes "s = [] \<or> s = ''/'' \<or> s = ''/api/health'' \<or> s = ''/api/health/''"
  shows "\<forall>pre\<in>set mount_prefixes. take (length pre) s \<noteq> lower pre"
  using assms
  by (auto simp add: mount_prefixes_def lower_def lower_char_def)

lemma route_match_lower:
  assumes "route_match ''/'' path \<or> route_match ''/api/health'' path"
  shows "lower path = [] \<or> lower path = ''/'' \<or> lower path = ''/api/health''
         \<or> lower path = ''/api/health/''"
  using assms
  by (auto simp add: route_match_def lower_def lower_char_def)

lemma business_not_fixed:
  assumes "business_path path"
  shows "\<not> route_match ''/'' path" and "\<not> route_match ''/api/health'' path"
  using business_path_lower [OF assms] fixed_paths_not_mounted route_match_lower
  by blast+

section \<open>The fixed endpoints\<close>

text \<open>
  Claim C1, as amended. A GET request to \<^verbatim>\<open>/api/health\<close> that the imported middleware
  lets through is answered with status 200 by every entry point. The body holds
  \<open>status = healthy\<close> with message, timestamp and environment in v2, \<open>status = healthy\<close>
  with message and timestamp but no environment in api, and message and timestamp
  only in v1.
\<close>

theorem health_check_by_entry_point:
  assumes "req_method req = ''GET''" and "req_path req = ''/api/health''"
  shows "(middleware_passes_v2 p d req \<longrightarrow>
            serve_v2 p d req = Responded \<lparr>res_status = 200, res_body = Json_body
              [(''message'', ''Medzy Backend Server is running!''),
               (''status'', ''healthy''),
               (''timestamp'', req_time req),
               (''environment'', or_default (NODE_ENV p) ''development'')]\<rparr>)
       \<and> (middleware_passes_api d req \<longrightarrow>
            serve_api d req = Responded \<lparr>res_status = 200, res_body = Json_body
              [(''message'', ''Medzy Backend Server is running!''),
               (''status'', ''healthy''),
               (''timestamp'', req_time req)]\<rparr>)
       \<and> (middleware_passes_v1 d req \<longrightarrow>
            serve_v1 d req = Responded \<lparr>res_status = 200, res_body = Json_body
              [(''message'', ''Medsy Backend Server is running!''),
               (''timestamp'', req_time req)]\<rparr>)"
proof -
  have nb: "\<not> business_path (req_path req)"
    using assms(2) health_not_business by simp
  have v2: "serve_v2 p d req = Responded \<lparr>res_status = 200, res_body = Json_body
              [(''message'', ''Medzy Backend Server is running!''),
               (''status'', ''healthy''),
               (''timestamp'', req_time req),
               (''environment'', or_default (NODE_ENV p) ''development'')]\<rparr>"
    if "middleware_passes_v2 p d req"
    using that assms
    by (simp add: serve_v2_def app_v2_def middleware_passes_v2_def passes_def
        run_business_routes_unmatched [OF nb] route_match_def lower_def lower_char_def
        get_handles_def health_v2_def json_response_def)
  have api: "serve_api d req = Responded \<lparr>res_status = 200, res_body = Json_body
              [(''message'', ''Medzy Backend Server is running!''),
               (''status'', ''healthy''),
               (''timestamp'', req_time req)]\<rparr>"
    if "middleware_passes_api d req"
    using that assms
    by (simp add: serve_api_def app_api_def middleware_passes_api_def passes_def
        route_match_def lower_def lower_char_def get_handles_def health_api_def
        json_response_def)
  have v1: "serve_v1 d req = Responded \<lparr>res_status = 200, res_body = Json_body
              [(''message'', ''Medsy Backend Server is running!''),
               (''timestamp'', req_time req)]\<rparr>"
    if "middleware_passes_v1 d req"
    using that assms
    by (simp add: serve_v1_def app_v1_def middleware_passes_v1_def passes_def
        run_business_routes_unmatched [OF nb] route_match_def lower_def lower_char_def
        get_handles_def health_v1_def json_response_def)
  from v2 api v1 show ?thesis by blast
qed

text \<open>The three answers at a sample request, all the middleware passing.\<close>

theorem health_check_by_entry_point_witness:
  "middleware_passes_v2 local_process all_pass (request_to ''GET'' ''/api/health'')
   \<and> middleware_passes_api all_pass (request_to ''GET'' ''/api/health'')
   \<and> middleware_passes_v1 all_pass (request_to ''GET'' ''/api/health'')
   \<and> serve_v2 local_process all_pass (request_to ''GET'' ''/api/health'') =
       Responded \<lparr>res_status = 200, res_body = Json_body
         [(''message'', ''Medzy Backend Server is running!''),
          (''status'', ''healthy''),
          (''timestamp'', ''2025-01-01T00:00:00.000Z''),
          (''environment'', ''development'')]\<rparr>
   \<and> serve_api all_pass (request_to ''GET'' ''/api/health'') =
       Responded \<lparr>res_status = 200, res_body = Json_body
         [(''message'', ''Medzy Backend Server is running!''),
          (''status'', ''healthy''),
          (''timestamp'', ''2025-01-01T00:00:00.000Z'')]\<rparr>
   \<and> serve_v1 all_pass (request_to ''GET'' ''/api/health'') =
       Responded \<lparr>res_status = 200, res_body = Json_body
         [(''message'', ''Medsy Backend Server is running!''),
          (''timestamp'', ''2025-01-01T00:00:00.000Z'')]\<rparr>"
  using health_check_by_entry_point
    [of "request_to ''GET'' ''/api/health''" local_process all_pass]
  by (simp add: sample_request_defs local_process_def or_default_def)

text \<open>
  Claim C1 as stated fails: the health check of v1 has no \<open>status\<close> field, and the one
  of api has no \<open>environment\<close> field.
\<close>

theorem health_check_v1_has_no_status:
  "field_of (serve_v1 all_pass (request_to ''GET'' ''/api/health'')) ''status''
     \<noteq> Some ''healthy''
   \<and> field_of (serve_api all_pass (request_to ''GET'' ''/api/health'')) ''environment'' = None"
  by (simp add: field_of_def serve_v1_def app_v1_def serve_api_def app_api_def all_pass_def
      request_to_def business_routes_def match_defs health_v1_def health_api_def
      json_response_def)

text \<open>
  Claim C8, as amended. A GET request to \<^verbatim>\<open>/\<close> that the imported middleware lets
  through is answered with status 200 and \<open>status = running\<close> by v2 (with message,
  timestamp and environment) and by api (with message and timestamp, no environment).
  v1 declares no route for \<^verbatim>\<open>/\<close>: the request ends at the framework's not-found page.
\<close>

theorem root_by_entry_point:
  assumes "req_method req = ''GET''" and "req_path req = ''/''"
  shows "(middleware_passes_v2 p d req \<longrightarrow>
            serve_v2 p d req = Responded \<lparr>res_status = 200, res_body = Json_body
              [(''message'', ''Medzy Healthcare & Medicine Tracker API''),
               (''status'', ''running''),
               (''timestamp'', req_time req),
               (''environment'', or_default (NODE_ENV p) ''development'')]\<rparr>)
       \<and> (middleware_passes_api d req \<longrightarrow>
            serve_api d req = Responded \<lparr>res_status = 200, res_body = Json_body
              [(''message'', ''Medzy Healthcare API''),
               (''status'', ''running''),
               (''timestamp'', req_time req)]\<rparr>)
       \<and> (middleware_passes_v1 d req \<longrightarrow> serve_v1 d req = Default_not_found)"
proof -
  have nb: "\<not> business_path (req_path req)"
    using assms(2) root_not_business by simp
  have v2: "serve_v2 p d req = Responded \<lparr>res_status = 200, res_body = Json_body
              [(''message'', ''Medzy Healthcare & Medicine Tracker API''),
               (''status'', ''running''),
               (''timestamp'', req_time req),
               (''environment'', or_default (NODE_ENV p) ''development'')]\<rparr>"
    if "middleware_passes_v2 p d req"
    using that assms
    by (simp add: serve_v2_def app_v2_def middleware_passes_v2_def passes_def
        run_business_routes_unmatched [OF nb] route_match_def lower_def lower_char_def
        get_handles_def root_v2_def json_response_def)
  have api: "serve_api d req = Responded \<lparr>res_status = 200, res_body = Json_body
              [(''message'', ''Medzy Healthcare API''),
               (''status'', ''running''),
               (''timestamp'', req_time req)]\<rparr>"
    if "middleware_passes_api d req"
    using that assms
    by (simp add: serve_api_def app_api_def middleware_passes_api_def passes_def
        route_match_def lower_def lower_char_def get_handles_def root_api_def
        json_response_def)
  have v1: "serve_v1 d req = Default_not_found" if "middleware_passes_v1 d req"
    using that assms
    by (simp add: serve_v1_def app_v1_def middleware_passes_v1_def passes_def
        run_business_routes_unmatched [OF nb] route_match_def lower_def lower_char_def)
  from v2 api v1 show ?thesis by blast
qed

text \<open>The three answers at a sample request, in production, all the middleware passing.\<close>

theorem root_by_entry_point_witness:
  "middleware_passes_v2 production_process all_pass (request_to ''GET'' ''/'')
   \<and> middleware_passes_api all_pass (request_to ''GET'' ''/'')
   \<and> middleware_passes_v1 all_pass (request_to ''GET'' ''/'')
   \<and> serve_v2 production_process all_pass (request_to ''GET'' ''/'') =
       Responded \<lparr>res_status = 200, res_body = Json_body
         [(''message'', ''Medzy Healthcare & Medicine Tracker API''),
          (''status'', ''running''),
          (''timestamp'', ''2025-01-01T00:00:00.000Z''),
          (''environment'', ''production'')]\<rparr>
   \<and> serve_api all_pass (request_to ''GET'' ''/'') =
       Responded \<lparr>res_status = 200, res_body = Json_body
         [(''message'', ''Medzy Healthcare API''),
          (''status'', ''running''),
          (''timestamp'', ''2025-01-01T00:00:00.000Z'')]\<rparr>
   \<and> serve_v1 all_pass (request_to ''GET'' ''/'') = Default_not_found"
  using root_by_entry_point [of "request_to ''GET'' ''/''" production_process all_pass]
  by (simp add: sample_request_defs production_process_def local_process_def or_default_def)

text \<open>
  Claim C8 as stated fails: v1 answers GET \<^verbatim>\<open>/\<close> with no response of its own, and the
  body of api has no \<open>environment\<close> field.
\<close>

theorem root_v1_not_found:
  "serve_v1 all_pass (request_to ''GET'' ''/'') = Default_not_found
   \<and> field_of (serve_api all_pass (request_to ''GET'' ''/'')) ''environment'' = None"
  by (simp add: field_of_def serve_v1_def app_v1_def serve_api_def app_api_def all_pass_def
      request_to_def business_routes_def match_defs root_api_def json_response_def)

section \<open>Unmatched routes\<close>

text \<open>
  Claim C2, as amended. A request that the imported middleware lets through, whose path
  lies under no mounted prefix and which meets neither fixed route, is answered by v2
  with status 404 and the body \<open>{message: Route not found, path}\<close>, the path being the
  one requested. v1 and api register no such handler: there the request ends at the
  framework's not-found page.
\<close>

theorem unmatched_route_by_entry_point:
  assumes "\<not> business_path (req_path req)" and "\<not> fixed_route req"
  shows "(middleware_passes_v2 p d req \<longrightarrow>
            serve_v2 p d req = Responded \<lparr>res_status = 404, res_body = Json_body
              [(''message'', ''Route not found''), (''path'', req_path req)]\<rparr>)
       \<and> (middleware_passes_v1 d req \<longrightarrow> serve_v1 d req = Default_not_found)
       \<and> (middleware_passes_api d req \<longrightarrow> serve_api d req = Default_not_found)"
proof -
  have v2: "serve_v2 p d req = Responded \<lparr>res_status = 404, res_body = Json_body
              [(''message'', ''Route not found''), (''path'', req_path req)]\<rparr>"
    if "middleware_passes_v2 p d req"
    using that assms(2)
    by (auto simp add: serve_v2_def app_v2_def middleware_passes_v2_def passes_def
        run_business_routes_unmatched [OF assms(1)] fixed_route_def not_found_v2_def
        json_response_def)
  have v1: "serve_v1 d req = Default_not_found" if "middleware_passes_v1 d req"
    using that assms(2)
    by (auto simp add: serve_v1_def app_v1_def middleware_passes_v1_def passes_def
        run_business_routes_unmatched [OF assms(1)] fixed_route_def)
  have api: "serve_api d req = Default_not_found" if "middleware_passes_api d req"
    using that assms(2)
    by (auto simp add: serve_api_def app_api_def middleware_passes_api_def passes_def
        fixed_route_def)
  from v2 v1 api show ?thesis by blast
qed

text \<open>The three answers to GET \<^verbatim>\<open>/api/does-not-exist\<close>, all the middleware passing.\<close>

theorem unmatched_route_by_entry_point_witness:
  "\<not> business_path (req_path (request_to ''GET'' ''/api/does-not-exist''))
   \<and> \<not> fixed_route (request_to ''GET'' ''/api/does-not-exist'')
   \<and> middleware_passes_v2 local_process all_pass (request_to ''GET'' ''/api/does-not-exist'')
   \<and> serve_v2 local_process all_pass (request_to ''GET'' ''/api/does-not-exist'') =
       Responded \<lparr>res_status = 404, res_body = Json_body
         [(''message'', ''Route not found''), (''path'', ''/api/does-not-exist'')]\<rparr>
   \<and> serve_v1 all_pass (request_to ''GET'' ''/api/does-not-exist'') = Default_not_found
   \<and> serve_api all_pass (request_to ''GET'' ''/api/does-not-exist'') = Default_not_found"
  using unmatched_route_by_entry_point
    [of "request_to ''GET'' ''/api/does-not-exist''" local_process all_pass]
  by (simp add: sample_request_defs business_path_def mount_prefixes_def match_defs
      fixed_route_def)

text \<open>
  Claim C2 as stated fails: api and v1 answer GET \<^verbatim>\<open>/api/does-not-exist\<close> with no
  response of their own, so not with the JSON body.
\<close>

theorem unmatched_route_api_default_not_found:
  "serve_api all_pass (request_to ''GET'' ''/api/does-not-exist'') = Default_not_found
   \<and> serve_v1 all_pass (request_to ''GET'' ''/api/does-not-exist'') = Default_not_found"
  by (simp add: serve_v1_def app_v1_def serve_api_def app_api_def all_pass_def
      request_to_def business_routes_def match_defs)

text \<open>
  Claim C10, as amended. The api entry point mounts no router and declares the GET
  routes \<^verbatim>\<open>/\<close> and \<^verbatim>\<open>/api/health\<close> only; a request to a path under a business prefix,
  whatever its method, ends at the framework's not-found page provided the CORS and
  JSON middleware registered ahead of the routes let it through.
\<close>

theorem api_business_path_not_found:
  "mounted (app_api d) = []
   \<and> get_routes (app_api d) = [''/'', ''/api/health'']
   \<and> (business_path (req_path req) \<and> middleware_passes_api d req \<longrightarrow>
        serve_api d req = Default_not_found)"
proof -
  have "serve_api d req = Default_not_found"
    if "business_path (req_path req)" and "middleware_passes_api d req"
    using that business_not_fixed [of "req_path req"]
    by (simp add: serve_api_def app_api_def middleware_passes_api_def passes_def)
  then show ?thesis
    by (simp add: app_api_def)
qed

text \<open>Two business paths, all the middleware passing.\<close>

theorem api_business_path_not_found_witness:
  "business_path (req_path (request_to ''POST'' ''/api/auth/login''))
   \<and> business_path (req_path (request_to ''GET'' ''/api/orders''))
   \<and> middleware_passes_api all_pass (request_to ''POST'' ''/api/auth/login'')
   \<and> serve_api all_pass (request_to ''POST'' ''/api/auth/login'') = Default_not_found
   \<and> serve_api all_pass (request_to ''GET'' ''/api/orders'') = Default_not_found"
  using api_business_path_not_found [of all_pass "request_to ''POST'' ''/api/auth/login''"]
    api_business_path_not_found [of all_pass "request_to ''GET'' ''/api/orders''"]
  by (simp add: sample_request_defs business_path_def mount_prefixes_def match_defs)

text \<open>
  Claim C10 as stated fails: not every request to a business path ends at the
  not-found page. When the JSON body parser throws on the body of a POST to
  \<^verbatim>\<open>/api/auth/login\<close>, the error middleware of api answers with status 500 and its
  own JSON body.
\<close>

theorem api_malformed_json_gets_500:
  "business_path (req_path malformed_login)
   \<and> serve_api json_rejects malformed_login \<noteq> Default_not_found
   \<and> serve_api json_rejects malformed_login =
       Responded \<lparr>res_status = 500, res_body = Json_body
         [(''message'', ''Internal server error'')]\<rparr>"
  by (simp add: malformed_login_def json_rejects_def all_pass_def parse_error_def
      business_path_def mount_prefixes_def match_defs serve_api_def app_api_def
      error_handler_api_def json_response_def)

section \<open>Errors raised while a request is handled\<close>

text \<open>
  A layer that throws leaves the layers after it to run with the error pending: the
  JSON body parser of v2 (position 1) and the auth router of v2 (position 3).
\<close>

lemma json_parser_throw_v2:
  assumes "passes (cors d (Some (cors_options_v2 p))) req"
    and "express_json d (Some ''10mb'') req = Throw e"
  shows "serve_v2 p d req = run (drop 2 (app_v2 p d)) req (Some e)"
  using assms by (simp add: serve_v2_def app_v2_def passes_def)

lemma auth_router_throw_v2:
  assumes "middleware_passes_v2 p d req"
    and "mount_match ''/api/auth'' (req_path req)"
    and "route_module d ''./routes/auth.js''
           (req\<lparr>req_path := strip_mount ''/api/auth'' (req_path req)\<rparr>) = Throw e"
  shows "serve_v2 p d req = run (drop 4 (app_v2 p d)) req (Some e)"
  using assms
  by (simp add: serve_v2_def app_v2_def business_routes_def middleware_passes_v2_def passes_def)

text \<open>
  Claim C3, as amended. In v2 an error raised by any layer ahead of the error
  middleware (the layers at positions 0 to 23, so that the layers from some \<open>k \<le> 24\<close> on
  run with the error pending) is answered with status 500; the \<open>error\<close> field of the
  body is the error's own message when \<open>NODE_ENV\<close> is \<open>development\<close> and the generic
  text in every other environment, production included. In api such an error is answered
  with status 500 and the generic message alone. v1 registers no error middleware:
  the error ends at the framework's error page.
\<close>

theorem pending_error_response:
  "(k \<le> 24 \<longrightarrow>
      run (drop k (app_v2 p d)) req (Some e) =
        Responded \<lparr>res_status = 500, res_body = Json_body
          [(''message'', ''Something went wrong!''),
           (''error'', (if NODE_ENV p = Some ''development''
                        then err_message e else ''Internal server error''))]\<rparr>)
   \<and> (k \<le> 4 \<longrightarrow>
      run (drop k (app_api d)) req (Some e) =
        Responded \<lparr>res_status = 500, res_body = Json_body
          [(''message'', ''Internal server error'')]\<rparr>)
   \<and> run (drop k (app_v1 d)) req (Some e) = Default_error e"
proof -
  let ?pre2 = "[Use (cors d (Some (cors_options_v2 p))),
      Use (express_json d (Some ''10mb'')),
      Use (express_urlencoded d True (Some ''10mb''))]
     @ business_routes d
     @ [Get ''/'' (root_v2 p), Get ''/api/health'' (health_v2 p)]"
  let ?post2 = "[Use_error (error_handler_v2 p), Use not_found_v2]"
  have split2: "app_v2 p d = ?pre2 @ ?post2"
    by (simp add: app_v2_def)
  have clean2: "\<forall>l\<in>set ?pre2. \<not> is_error_layer l"
    using business_routes_no_error_layer [of d] by auto
  have len2: "length ?pre2 = 24"
    by (simp add: length_business_routes)
  have v2: "run (drop k (app_v2 p d)) req (Some e) = run ?post2 req (Some e)" if "k \<le> 24"
    unfolding split2 using clean2 that len2 by (intro run_drop_on_error) simp_all
  let ?pre_api = "[Use (cors d (Some cors_options_api)), Use (express_json d None),
      Get ''/'' root_api, Get ''/api/health'' health_api]"
  let ?post_api = "[Use_error error_handler_api]"
  have split_api: "app_api d = ?pre_api @ ?post_api"
    by (simp add: app_api_def)
  have api: "run (drop k (app_api d)) req (Some e) = run ?post_api req (Some e)" if "k \<le> 4"
    unfolding split_api using that by (intro run_drop_on_error) simp_all
  have clean1: "\<forall>l\<in>set (app_v1 d). \<not> is_error_layer l"
    using business_routes_no_error_layer [of d] by (auto simp add: app_v1_def)
  have "\<forall>l\<in>set (drop k (app_v1 d)). \<not> is_error_layer l"
    using clean1 by (meson in_set_dropD)
  then have "run (drop k (app_v1 d) @ []) req (Some e) = run [] req (Some e)"
    by (rule run_skips_on_error)
  then have v1: "run (drop k (app_v1 d)) req (Some e) = Default_error e"
    by simp
  from v2 api v1 show ?thesis
    by (simp add: error_handler_v2_def error_handler_api_def json_response_def)
qed

text \<open>
  The auth router (position 3 of v2) throws: the layers from 4 on answer, in production
  with the generic text and in development with the message. In api the JSON parser
  (position 1) throws.
\<close>

theorem pending_error_response_witness:
  "(4::nat) \<le> 24 \<and> (2::nat) \<le> 4
   \<and> run (drop 4 (app_v2 production_process auth_throws))
         (request_to ''POST'' ''/api/auth/login'') (Some boom) =
       Responded \<lparr>res_status = 500, res_body = Json_body
         [(''message'', ''Something went wrong!''), (''error'', ''Internal server error'')]\<rparr>
   \<and> run (drop 4 (app_v2 (local_process\<lparr>NODE_ENV := Some ''development''\<rparr>) auth_throws))
         (request_to ''POST'' ''/api/auth/login'') (Some boom) =
       Responded \<lparr>res_status = 500, res_body = Json_body
         [(''message'', ''Something went wrong!''), (''error'', ''boom'')]\<rparr>
   \<and> run (drop 2 (app_api all_pass)) (request_to ''POST'' ''/api/auth/login'') (Some boom) =
       Responded \<lparr>res_status = 500, res_body = Json_body
         [(''message'', ''Internal server error'')]\<rparr>"
  using pending_error_response
      [of 4 production_process auth_throws "request_to ''POST'' ''/api/auth/login''" boom]
    pending_error_response
      [of 4 "local_process\<lparr>NODE_ENV := Some ''development''\<rparr>" auth_throws
          "request_to ''POST'' ''/api/auth/login''" boom]
    pending_error_response
      [of 2 production_process all_pass "request_to ''POST'' ''/api/auth/login''" boom]
  by (simp add: production_process_def local_process_def boom_def)

text \<open>
  Claim C3 as stated fails: with \<open>NODE_ENV = test\<close>, which is not production, an error
  thrown by the auth router of v2 is answered without its message.
\<close>

theorem error_detail_hidden_outside_development:
  "NODE_ENV test_process \<noteq> Some ''production''
   \<and> field_of (serve_v2 test_process auth_throws (request_to ''POST'' ''/api/auth/login''))
        ''error'' \<noteq> Some (err_message boom)"
  by (simp add: test_process_def local_process_def field_of_def serve_v2_def app_v2_def
      auth_throws_def all_pass_def request_to_def business_routes_def match_defs boom_def
      error_handler_v2_def json_response_def strip_mount_def)

section \<open>CORS\<close>

text \<open>
  Claim C5, as amended. v2 passes to \<^verbatim>\<open>cors\<close> the one production origin when
  \<open>NODE_ENV\<close> is \<open>production\<close> and the two localhost origins otherwise, with credentials
  enabled. api passes the same list in every environment, the production origin and
  one localhost origin, with credentials enabled. v1 calls \<^verbatim>\<open>cors()\<close> with no options.
\<close>

theorem cors_options_by_entry_point:
  "(NODE_ENV p = Some ''production'' \<longrightarrow>
      origin (cors_options_v2 p) = [''https://medzy-app-frontend.vercel.app''])
   \<and> (NODE_ENV p \<noteq> Some ''production'' \<longrightarrow>
      origin (cors_options_v2 p) = [''http://localhost:5173'', ''http://localhost:3000''])
   \<and> credentials (cors_options_v2 p)
   \<and> hd (app_v2 p d) = Use (cors d (Some (cors_options_v2 p)))
   \<and> origin cors_options_api =
        [''https://medzy-app-frontend.vercel.app'', ''http://localhost:5173'']
   \<and> credentials cors_options_api
   \<and> hd (app_api d) = Use (cors d (Some cors_options_api))
   \<and> hd (app_v1 d) = Use (cors d None)"
  by (simp add: cors_options_v2_def cors_options_api_def app_v2_def app_api_def app_v1_def)

text \<open>The list of v2 in production and in a test environment.\<close>

theorem cors_options_by_entry_point_witness:
  "NODE_ENV production_process = Some ''production''
   \<and> NODE_ENV test_process \<noteq> Some ''production''
   \<and> origin (cors_options_v2 production_process) = [''https://medzy-app-frontend.vercel.app'']
   \<and> origin (cors_options_v2 test_process)
        = [''http://localhost:5173'', ''http://localhost:3000'']"
  using cors_options_by_entry_point [of production_process all_pass]
    cors_options_by_entry_point [of test_process all_pass]
  by (simp add: production_process_def test_process_def local_process_def)

text \<open>
  Claim C5 as stated fails: the list of api, which no environment changes, holds a
  localhost origin beside the production origin, and v1 passes no options at all.
\<close>

theorem cors_api_list_is_fixed:
  "''http://localhost:5173'' \<in> set (origin cors_options_api)
   \<and> ''https://medzy-app-frontend.vercel.app'' \<in> set (origin cors_options_api)
   \<and> hd (app_v1 all_pass) = Use (cors all_pass None)"
  by (simp add: cors_options_api_def app_v1_def)

section \<open>Uploads\<close>

text \<open>
  Claim C4. Under the upload configuration a file whose content type does not start
  with \<^verbatim>\<open>image/\<close> is rejected with the filter's error, whatever its size; a file whose
  content type starts with \<^verbatim>\<open>image/\<close> and whose size is under 10 MB is stored in the
  uploads directory under the field name, a dash, the clock, a dash, the random number
  and the extension of the original name; a file whose content type starts with
  \<^verbatim>\<open>image/\<close> and whose size is over 10 MB is rejected with the size-limit error and
  not stored.
\<close>

theorem upload_filter_and_filename:
  "(\<not> starts_with (mimetype f) ''image/'' \<longrightarrow>
      upload extname uploadsDir now rnd f =
        Inl (Filter_error \<lparr>err_message = ''Only image files are allowed!'', err_code = None\<rparr>))
   \<and> (starts_with (mimetype f) ''image/'' \<and> file_size f < 10 * 1024 * 1024 \<longrightarrow>
      upload extname uploadsDir now rnd f =
        Inr (Some \<lparr>stored_dir = uploadsDir,
                   stored_name = fieldname f @ ''-'' @ digits now @ ''-'' @ digits rnd
                                 @ extname (originalname f)\<rparr>))
   \<and> (starts_with (mimetype f) ''image/'' \<and> 10 * 1024 * 1024 < file_size f \<longrightarrow>
      upload extname uploadsDir now rnd f = Inl LIMIT_FILE_SIZE)"
  by (simp add: upload_def fileFilter_def fileSize_limit_def destination_def filename_def
      uniqueSuffix_def)

text \<open>
  A PDF is rejected, a PNG of 2 kB is stored with its extension, a PNG one byte under
  the limit is stored, and a PNG of 20 MB and one a byte over the limit are rejected.
\<close>

theorem upload_filter_and_filename_witness:
  "\<not> starts_with (mimetype pdf_upload) ''image/''
   \<and> starts_with (mimetype png_upload) ''image/''
   \<and> file_size png_upload < 10 * 1024 * 1024
   \<and> upload from_dot ''/srv/uploads'' 1700000000000 123456789 pdf_upload =
       Inl (Filter_error \<lparr>err_message = ''Only image files are allowed!'', err_code = None\<rparr>)
   \<and> upload from_dot ''/srv/uploads'' 1700000000000 123456789 png_upload =
       Inr (Some \<lparr>stored_dir = ''/srv/uploads'',
                  stored_name = ''image-1700000000000-123456789.png''\<rparr>)
   \<and> upload from_dot ''/srv/uploads'' 1700000000000 123456789
         (png_upload\<lparr>file_size := 10485759\<rparr>) =
       Inr (Some \<lparr>stored_dir = ''/srv/uploads'',
                  stored_name = ''image-1700000000000-123456789.png''\<rparr>)
   \<and> starts_with (mimetype huge_png_upload) ''image/''
   \<and> 10 * 1024 * 1024 < file_size huge_png_upload
   \<and> upload from_dot ''/srv/uploads'' 1700000000000 123456789 huge_png_upload
        = Inl LIMIT_FILE_SIZE
   \<and> upload from_dot ''/srv/uploads'' 1700000000000 123456789
         (png_upload\<lparr>file_size := 10485761\<rparr>) = Inl LIMIT_FILE_SIZE"
  using upload_filter_and_filename [of pdf_upload from_dot "''/srv/uploads''" 1700000000000 123456789]
    upload_filter_and_filename [of png_upload from_dot "''/srv/uploads''" 1700000000000 123456789]
    upload_filter_and_filename
      [of "png_upload\<lparr>file_size := 10485759\<rparr>" from_dot "''/srv/uploads''" 1700000000000 123456789]
    upload_filter_and_filename
      [of huge_png_upload from_dot "''/srv/uploads''" 1700000000000 123456789]
    upload_filter_and_filename
      [of "png_upload\<lparr>file_size := 10485761\<rparr>" from_dot "''/srv/uploads''" 1700000000000 123456789]
  by (simp add: pdf_upload_def png_upload_def huge_png_upload_def starts_with_def from_dot_def
      digits.simps digit_char_def)

section \<open>The listener and the signals\<close>

lemma run_events_Nil: "run_events v p st [] = st"
  by (simp add: run_events_def)

lemma run_events_Cons: "run_events v p st (ev # evs) = run_events v p (deliver v p st ev) evs"
  by (simp add: run_events_def)

text \<open>Nothing happens in a process that has ended.\<close>

lemma deliver_ended: "ended st \<noteq> None \<Longrightarrow> deliver v p st ev = st"
  by (simp add: deliver_def)

lemma run_events_ended: "ended st \<noteq> None \<Longrightarrow> run_events v p st evs = st"
  by (induction evs) (simp_all add: run_events_Nil run_events_Cons deliver_ended)



lemma busy_server_state:
  "busy_server =
     \<lparr>console = [Log ''[0] Server running on port 5000''], ended = None, db_connect_calls = 1,
      services = [''./services/emailService.js'', ''./services/notificationService.js''],
      listen_calls = [''5000''], accepting = True, open_conns = 2, close_pending = False,
      on_error = True, on_signal = [''SIGINT'', ''SIGTERM'']\<rparr>"
  by (simp add: busy_server_def run_events_def main_v2_def local_process_def isVercel_def
      truthy_def every_service_loads_def init_services_v2_def startServer_v2_def
      listen_and_register_def fresh_def deliver_def listening_callback_def say_def PORT_def
      or_default_def Let_def)

text \<open>A running server stays running while it is bound and connections come and go.\<close>

lemma running_preserved:
  assumes "running st" and "\<not> close_pending st"
    and "ev = Listening \<or> ev = Connect \<or> ev = Disconnect"
  shows "running (deliver v p st ev)" and "\<not> close_pending (deliver v p st ev)"
  using assms
  by (auto simp add: running_def deliver_def listening_callback_def say_def Let_def)



text \<open>What the signal handlers do to a process that has not ended.\<close>

lemma deliver_signal:
  assumes "ended st = None" and "sig \<in> set (on_signal st)"
  shows "deliver v p st (Signal sig) =
     (let st' = st\<lparr>console := console st @
                  [Log ((case v of V1 \<Rightarrow> [CHR 0x0A] | V2 \<Rightarrow> [CHR 0x5C, CHR ''n''])
                        @ waving_hand @ '' Received '' @ sig @ ''. Shutting down gracefully...'')],
                  accepting := False, close_pending := True\<rparr>
      in if open_conns st = 0
         then st'\<lparr>console := console st' @ [Log ''Process terminated''], ended := Some (Exited 0)\<rparr>
         else st')"
  using assms
  by (cases v) (simp_all add: deliver_def on_signal_v1_def on_signal_v2_def server_close_def
      close_callback_def exit_with_def say_def Let_def)

lemma signal_running:
  assumes "running st" and "sig = ''SIGINT'' \<or> sig = ''SIGTERM''"
  shows "\<not> accepting (deliver v p st (Signal sig))"
    and "open_conns (deliver v p st (Signal sig)) = open_conns st"
    and "0 < open_conns st \<Longrightarrow> draining (deliver v p st (Signal sig))"
    and "open_conns st = 0 \<Longrightarrow> ended (deliver v p st (Signal sig)) = Some (Exited 0)"
proof -
  from assms have pre: "ended st = None" "sig \<in> set (on_signal st)"
    "on_signal st = [''SIGINT'', ''SIGTERM'']"
    by (auto simp add: running_def)
  note eq = deliver_signal [OF pre(1,2), of v p]
  show "\<not> accepting (deliver v p st (Signal sig))"
    by (simp add: eq Let_def)
  show "open_conns (deliver v p st (Signal sig)) = open_conns st"
    by (simp add: eq Let_def)
  show "draining (deliver v p st (Signal sig))" if "0 < open_conns st"
    using that pre by (simp add: eq Let_def draining_def)
  show "ended (deliver v p st (Signal sig)) = Some (Exited 0)" if "open_conns st = 0"
    using that by (simp add: eq Let_def)
qed

lemma deliver_connect_refused:
  assumes "ended st = None" and "\<not> accepting st"
  shows "deliver v p st Connect = st"
  using assms by (simp add: deliver_def)

lemma deliver_disconnect_pending:
  assumes "ended st = None" and "close_pending st" and "0 < open_conns st"
  shows "deliver v p st Disconnect =
     (if open_conns st = 1
      then st\<lparr>open_conns := 0, console := console st @ [Log ''Process terminated''],
              ended := Some (Exited 0)\<rparr>
      else st\<lparr>open_conns := open_conns st - 1\<rparr>)"
  using assms
  by (auto simp add: deliver_def close_callback_def exit_with_def say_def Let_def)

text \<open>One event of a shutdown, in a draining process.\<close>

lemma deliver_draining:
  assumes "draining st" and "drain_event ev"
  shows "open_conns (deliver v p st ev)
           = (if ev = Disconnect then open_conns st - 1 else open_conns st)"
    and "\<not> accepting (deliver v p st ev)"
    and "open_conns (deliver v p st ev) = 0 \<Longrightarrow> ended (deliver v p st ev) = Some (Exited 0)"
    and "0 < open_conns (deliver v p st ev) \<Longrightarrow> draining (deliver v p st ev)"
proof -
  from assms(1) have pre: "ended st = None" "close_pending st" "\<not> accepting st"
    "0 < open_conns st" "on_signal st = [''SIGINT'', ''SIGTERM'']"
    by (simp_all add: draining_def)
  consider (c) "ev = Connect" | (d) "ev = Disconnect"
    | (s) sig where "ev = Signal sig" "sig \<in> set (on_signal st)"
    using assms(2) pre(5) by (auto simp add: drain_event_def)
  then have all: "open_conns (deliver v p st ev)
           = (if ev = Disconnect then open_conns st - 1 else open_conns st)
      \<and> \<not> accepting (deliver v p st ev)
      \<and> (open_conns (deliver v p st ev) = 0 \<longrightarrow> ended (deliver v p st ev) = Some (Exited 0))
      \<and> (0 < open_conns (deliver v p st ev) \<longrightarrow> draining (deliver v p st ev))"
  proof cases
    case c
    then show ?thesis
      using pre assms(1) by (simp add: deliver_connect_refused)
  next
    case d
    then show ?thesis
      using pre by (simp add: deliver_disconnect_pending draining_def)
  next
    case s
    then show ?thesis
      using pre by (simp add: deliver_signal Let_def draining_def)
  qed
  from all show "open_conns (deliver v p st ev)
           = (if ev = Disconnect then open_conns st - 1 else open_conns st)" by blast
  from all show "\<not> accepting (deliver v p st ev)" by blast
  from all show "open_conns (deliver v p st ev) = 0 \<Longrightarrow> ended (deliver v p st ev) = Some (Exited 0)"
    by blast
  from all show "0 < open_conns (deliver v p st ev) \<Longrightarrow> draining (deliver v p st ev)" by blast
qed

lemma disconnects_Cons:
  "disconnects (ev # evs) = (if ev = Disconnect then Suc (disconnects evs) else disconnects evs)"
  by (simp add: disconnects_def)

text \<open>
  A draining process stays alive while connections remain and exits with 0 when the
  last one has ended.
\<close>

lemma drain_run:
  assumes "draining st" and "list_all drain_event evs"
  shows "\<not> accepting (run_events v p st evs)
    \<and> (disconnects evs < open_conns st \<longrightarrow>
          ended (run_events v p st evs) = None
          \<and> open_conns (run_events v p st evs) = open_conns st - disconnects evs)
    \<and> (open_conns st \<le> disconnects evs \<longrightarrow>
          ended (run_events v p st evs) = Some (Exited 0))"
  using assms
proof (induction evs arbitrary: st)
  case Nil
  then show ?case by (simp add: run_events_Nil disconnects_def draining_def)
next
  case (Cons ev evs)
  let ?st' = "deliver v p st ev"
  from Cons.prems have ev: "drain_event ev" and evs: "list_all drain_event evs" by simp_all
  note step = deliver_draining [OF Cons.prems(1) ev, of v p]
  have pos: "0 < open_conns st" using Cons.prems(1) by (simp add: draining_def)
  show ?case
  proof (cases "open_conns ?st' = 0")
    case True
    then have fin: "ended ?st' = Some (Exited 0)" using step(3) by simp
    then have same: "run_events v p st (ev # evs) = ?st'"
      by (simp add: run_events_Cons run_events_ended)
    from True step(1) pos have "ev = Disconnect \<and> open_conns st = 1"
      by (cases "ev = Disconnect") simp_all
    with same fin step(2) show ?thesis
      by (simp add: disconnects_Cons)
  next
    case False
    then have dr: "draining ?st'" using step(4) by simp
    note ih = Cons.IH [OF dr evs]
    show ?thesis
    proof (cases "ev = Disconnect")
      case True
      with step(1) have "open_conns ?st' = open_conns st - 1" by simp
      with ih pos True show ?thesis
        by (simp add: run_events_Cons disconnects_Cons)
    next
      case False
      with step(1) have "open_conns ?st' = open_conns st" by simp
      with ih False show ?thesis
        by (simp add: run_events_Cons disconnects_Cons)
    qed
  qed
qed

text \<open>
  Claim C7. A running server (v1 or v2) receives SIGINT or SIGTERM, and then only
  connection attempts, ends of connections and further such signals. From the signal on
  the listener takes no new connection; while fewer connections have ended than were
  open at the signal the process has not ended and the others stay open; once as many
  have ended as were open, the process has exited with status 0.
\<close>

theorem signal_drains_then_exits:
  assumes "running st" and "sig = ''SIGINT'' \<or> sig = ''SIGTERM''" and "list_all drain_event evs"
  shows "\<not> accepting (run_events v p (deliver v p st (Signal sig)) evs)
    \<and> (disconnects evs < open_conns st \<longrightarrow>
          ended (run_events v p (deliver v p st (Signal sig)) evs) = None
          \<and> open_conns (run_events v p (deliver v p st (Signal sig)) evs)
              = open_conns st - disconnects evs)
    \<and> (open_conns st \<le> disconnects evs \<longrightarrow>
          ended (run_events v p (deliver v p st (Signal sig)) evs) = Some (Exited 0))"
proof (cases "open_conns st = 0")
  case True
  let ?st' = "deliver v p st (Signal sig)"
  have fin: "ended ?st' = Some (Exited 0)"
    using signal_running(4) [OF assms(1,2) True] .
  then have "run_events v p ?st' evs = ?st'"
    by (simp add: run_events_ended)
  with fin True signal_running(1) [OF assms(1,2), of v p] show ?thesis by simp
next
  case False
  then have "draining (deliver v p st (Signal sig))"
    using signal_running(3) [OF assms(1,2)] by simp
  from drain_run [OF this assms(3), of v p] signal_running(2) [OF assms(1,2), of v p]
  show ?thesis by simp
qed

text \<open>
  The server with two open connections gets SIGTERM: after one connection has ended
  it is alive, a new connection having been refused; after both it has exited with 0.
\<close>

theorem signal_drains_then_exits_witness:
  "running busy_server
   \<and> list_all drain_event [Connect, Disconnect, Disconnect]
   \<and> open_conns busy_server = 2
   \<and> ended (run_events V2 local_process (deliver V2 local_process busy_server (Signal ''SIGTERM''))
        [Connect, Disconnect]) = None
   \<and> open_conns (run_events V2 local_process
        (deliver V2 local_process busy_server (Signal ''SIGTERM'')) [Connect, Disconnect]) = 1
   \<and> ended (run_events V2 local_process (deliver V2 local_process busy_server (Signal ''SIGTERM''))
        [Connect, Disconnect, Disconnect]) = Some (Exited 0)"
  using signal_drains_then_exits
      [of busy_server "''SIGTERM''" "[Connect, Disconnect]" V2 local_process]
    signal_drains_then_exits
      [of busy_server "''SIGTERM''" "[Connect, Disconnect, Disconnect]" V2 local_process]
  by (simp add: busy_server_state running_def drain_event_def disconnects_def)

section \<open>Serverless mode\<close>

text \<open>
  Claim C9, as amended. Each entry point exports its application. v2 skips the listener,
  the error handler of the listener and the signal handlers when \<open>VERCEL\<close> or
  \<open>VERCEL_ENV\<close> is set and not empty. v1 does not read these variables: it skips the
  three when \<open>NODE_ENV\<close> is \<open>production\<close> and calls \<^verbatim>\<open>app.listen\<close> otherwise. api never
  touches the process.
\<close>

theorem listener_skipped_by_entry_point:
  "(isVercel p \<longrightarrow>
      listen_calls (process_state (load_v2 p d loads thrown)) = []
      \<and> \<not> on_error (process_state (load_v2 p d loads thrown))
      \<and> on_signal (process_state (load_v2 p d loads thrown)) = []
      \<and> ended (process_state (load_v2 p d loads thrown)) = None)
   \<and> default_export (load_v2 p d loads thrown) = app_v2 p d
   \<and> (NODE_ENV p = Some ''production'' \<longrightarrow>
      listen_calls (process_state (load_v1 p d thrown)) = []
      \<and> \<not> on_error (process_state (load_v1 p d thrown))
      \<and> on_signal (process_state (load_v1 p d thrown)) = []
      \<and> ended (process_state (load_v1 p d thrown)) = None)
   \<and> (NODE_ENV p \<noteq> Some ''production'' \<longrightarrow>
      listen_calls (process_state (load_v1 p d thrown)) = [PORT p])
   \<and> default_export (load_v1 p d thrown) = app_v1 d
   \<and> process_state (load_api d) = fresh
   \<and> default_export (load_api d) = app_api d"
  by (simp add: load_v2_def load_v1_def load_api_def main_v2_def main_v1_def main_api_def
      startServer_v1_def listen_and_register_def fresh_def Let_def exit_with_def say_def
      split: option.split)

text \<open>v2 on Vercel, v1 in production, and v1 outside production.\<close>

theorem listener_skipped_by_entry_point_witness:
  "isVercel vercel_process
   \<and> NODE_ENV production_process = Some ''production''
   \<and> NODE_ENV local_process \<noteq> Some ''production''
   \<and> listen_calls (process_state (load_v2 vercel_process all_pass every_service_loads None)) = []
   \<and> on_signal (process_state (load_v2 vercel_process all_pass every_service_loads None)) = []
   \<and> listen_calls (process_state (load_v1 production_process all_pass None)) = []
   \<and> listen_calls (process_state (load_v1 local_process all_pass None)) = [''5000'']"
  using listener_skipped_by_entry_point [of vercel_process all_pass every_service_loads None]
    listener_skipped_by_entry_point [of production_process all_pass every_service_loads None]
    listener_skipped_by_entry_point [of local_process all_pass every_service_loads None]
  by (simp add: vercel_process_def production_process_def local_process_def isVercel_def
      truthy_def PORT_def or_default_def)

text \<open>
  Claim C9 as stated fails: with \<open>VERCEL = 1\<close> and \<open>NODE_ENV\<close> unset, v1 calls
  \<^verbatim>\<open>app.listen\<close> and registers the error and signal handlers.
\<close>

theorem v1_listens_on_vercel:
  "isVercel vercel_process
   \<and> listen_calls (process_state (load_v1 vercel_process all_pass None)) = [''5000'']
   \<and> on_error (process_state (load_v1 vercel_process all_pass None))
   \<and> on_signal (process_state (load_v1 vercel_process all_pass None)) = [''SIGINT'', ''SIGTERM'']"
  by (simp add: vercel_process_def local_process_def isVercel_def truthy_def load_v1_def
      main_v1_def startServer_v1_def listen_and_register_def fresh_def PORT_def or_default_def)

end
